theory Spec2Isabelle
  imports Complex_Main
begin

section \<open>Python values, keyword arguments and exceptions\<close>

text \<open>
  The two modules wrap third-party map widgets. The values that travel through the
  wrapper (coordinates, bounds, styles, GeoJSON structures, option values) are plain
  Python data. A dict is an association list in insertion order; a float carries the
  value of its literal, and the wrapper does no arithmetic on it.
\<close>

datatype pyval =
    PNone
  | PBool bool
  | PInt int
  | PFloat real
  | PStr string
  | PList "pyval list"
  | PTuple "pyval list"
  | PDict "(string \<times> pyval) list"

type_synonym kwargs = "(string \<times> pyval) list"

datatype error =
    KeyError string
  | TypeError string
  | UnboundLocalError string
  | LibraryError string

text \<open>
  A parameter with a default value is an optional argument of the model: \<open>None\<close> when
  the caller leaves it out.
\<close>

definition arg_or :: "'a \<Rightarrow> 'a option \<Rightarrow> 'a" where
  "arg_or dflt a = (case a of None \<Rightarrow> dflt | Some v \<Rightarrow> v)"

text \<open>
  A call \<open>f(k1=v1, ..., **kwargs)\<close>: Python raises TypeError when a key of \<open>kwargs\<close>
  repeats a keyword written in the call (or, at the method's own boundary, names one of
  its parameters); otherwise the callee receives the written keywords followed by the
  extra ones.
\<close>

definition call_kw :: "kwargs \<Rightarrow> kwargs \<Rightarrow> error + kwargs" where
  "call_kw named extra =
     (case filter (\<lambda>k. k \<in> set (map fst named)) (map fst extra) of
        [] \<Rightarrow> Inr (named @ extra)
      | k # _ \<Rightarrow> Inl (TypeError k))"

subsection \<open>\<open>str.upper\<close> and \<open>str.lower\<close>\<close>

text \<open>
  On the ASCII letters, which are all that the map-type registry holds. Every other
  character is left as it is: Python also changes the case of letters beyond ASCII, and
  among the 8-bit characters of \<open>string\<close> none of those becomes an ASCII letter of a
  registry key.
\<close>

definition char_upper :: "char \<Rightarrow> char" where
  "char_upper c =
     (let n = (of_char c :: nat) in if 97 \<le> n \<and> n \<le> 122 then char_of (n - 32) else c)"

definition char_lower :: "char \<Rightarrow> char" where
  "char_lower c =
     (let n = (of_char c :: nat) in if 65 \<le> n \<and> n \<le> 90 then char_of (n + 32) else c)"

definition upper :: "string \<Rightarrow> string" where
  "upper s = map char_upper s"

definition lower :: "string \<Rightarrow> string" where
  "lower s = map char_lower s"

text \<open>
  \<open>any_case s t\<close>: \<open>s\<close> spells the token \<open>t\<close> with each letter in either case.
\<close>

definition any_case :: "string \<Rightarrow> string \<Rightarrow> bool" where
  "any_case s t = list_all2 (\<lambda>c u. c = u \<or> c = char_lower u) s t"

section \<open>The leaflet map (\<open>temp_interpolation.Map\<close>)\<close>

text \<open>
  Both modules name their class \<open>Map\<close>; here they are \<open>MapA\<close> (the ipyleaflet
  subclass) and \<open>MapB\<close> (the folium subclass). A layer is a widget: its class and the
  values of its traits. The two tile layers of \<open>add_basemap\<close> and \<open>add_google_map\<close> are
  built from a string URL and a string name, which the widget takes as they are. Every
  other widget is built by its library from values of the caller, which the library
  validates and may rewrite: those constructors are parameters of the model.
  \<open>trait l k\<close> reads the trait \<open>k\<close> of the layer \<open>l\<close>.
\<close>

datatype layer =
    TileLayer kwargs
  | GeoJSON kwargs
  | ImageOverlay kwargs
  | VideoOverlay kwargs
  | WMSLayer kwargs
  | LocalTileLayer kwargs

fun traits :: "layer \<Rightarrow> kwargs" where
  "traits (TileLayer kw) = kw"
| "traits (GeoJSON kw) = kw"
| "traits (ImageOverlay kw) = kw"
| "traits (VideoOverlay kw) = kw"
| "traits (WMSLayer kw) = kw"
| "traits (LocalTileLayer kw) = kw"

definition trait :: "layer \<Rightarrow> string \<Rightarrow> pyval option" where
  "trait l k = map_of (traits l) k"

datatype control = LayersControl

record MapA =
  center :: pyval
  zoom :: pyval
  height :: pyval
  scroll_wheel_zoom :: bool
  layers :: "layer list"
  controls :: "control list"
  view_bounds :: "pyval option"

text \<open>
  The outcome of a method call: it returns (the methods return no value), or raises
  with the map as it is at that moment. \<open>final\<close> is the map the call leaves behind.
\<close>

datatype outcome = Returns (final: MapA) | Raises error (final: MapA)

text \<open>The base widget's \<open>add_layer\<close>, \<open>add_control\<close> and \<open>fit_bounds\<close>.\<close>

definition add_layer :: "layer \<Rightarrow> MapA \<Rightarrow> MapA" where
  "add_layer l self = self\<lparr>layers := layers self @ [l]\<rparr>"

definition add_control :: "control \<Rightarrow> MapA \<Rightarrow> MapA" where
  "add_control c self = self\<lparr>controls := controls self @ [c]\<rparr>"

definition fit_bounds :: "pyval \<Rightarrow> MapA \<Rightarrow> MapA" where
  "fit_bounds b self = self\<lparr>view_bounds := Some b\<rparr>"

subsection \<open>\<open>add_google_map\<close>\<close>

definition map_types :: "(string \<times> string) list" where
  "map_types = [(''ROADMAP'', ''m''), (''SATELLITE'', ''s''), (''HYBRID'', ''h''), (''TERRAIN'', ''t'')]"

definition add_google_map :: "string option \<Rightarrow> MapA \<Rightarrow> outcome" where
  "add_google_map map_type_arg self =
     (let map_type = arg_or ''ROADMAP'' map_type_arg in
      case map_of map_types (upper map_type) of
        None \<Rightarrow> Raises (KeyError (upper map_type)) self
      | Some map_type \<Rightarrow>
          let url = ''https://mt1.google.com/vt/lyrs='' @ lower map_type @ ''&x={x}&y={y}&z={z}'' in
          Returns (add_layer (TileLayer [(''url'', PStr url), (''name'', PStr ''Google Map'')]) self))"

subsection \<open>\<open>add_basemap\<close>\<close>

text \<open>
  The third-party code the methods call is a parameter of the model, with the failures
  it can raise as \<open>Inl\<close>:
  \<^item> \<open>build_url name\<close> is \<^verbatim>\<open>eval(f"ipyleaflet.basemaps.{name}").build_url()\<close>, the
    lookup of a name in the basemap registry followed by the construction of its URL;
  \<^item> \<open>read_file\<close>, \<open>to_crs\<close>, \<open>geo_interface\<close> and \<open>total_bounds\<close> are geopandas'
    functions on a GeoDataFrame \<open>'g\<close>; \<open>total_bounds\<close> is the array
    \<open>(minx, miny, maxx, maxy)\<close>;
  \<^item> \<open>TileClient\<close> and \<open>get_leaflet_tile_layer\<close> are localtileserver's;
  \<^item> \<open>ipyleaflet_GeoJSON\<close>, \<open>ipyleaflet_ImageOverlay\<close>, \<open>ipyleaflet_VideoOverlay\<close> and
    \<open>ipyleaflet_WMSLayer\<close> are the widget constructors \<open>ipyleaflet.GeoJSON\<close> and so on,
    called with keyword arguments: the widget, or the error of a value it rejects.
\<close>

record tile_client =
  client_center :: pyval
  default_zoom :: pyval

record 'g libraries =
  build_url :: "string \<Rightarrow> error + string"
  read_file :: "string \<Rightarrow> error + 'g"
  to_crs :: "'g \<Rightarrow> nat \<Rightarrow> error + 'g"
  geo_interface :: "'g \<Rightarrow> pyval"
  total_bounds :: "'g \<Rightarrow> pyval \<times> pyval \<times> pyval \<times> pyval"
  TileClient :: "pyval \<Rightarrow> error + tile_client"
  get_leaflet_tile_layer :: "tile_client \<Rightarrow> kwargs \<Rightarrow> error + layer"
  ipyleaflet_GeoJSON :: "kwargs \<Rightarrow> error + layer"
  ipyleaflet_ImageOverlay :: "kwargs \<Rightarrow> error + layer"
  ipyleaflet_VideoOverlay :: "kwargs \<Rightarrow> error + layer"
  ipyleaflet_WMSLayer :: "kwargs \<Rightarrow> error + layer"

text \<open>
  The bare \<open>except:\<close> catches whatever the first attempt raises; the second attempt is
  not guarded.
\<close>

definition add_basemap :: "'g libraries \<Rightarrow> string option \<Rightarrow> MapA \<Rightarrow> outcome" where
  "add_basemap L basemap_arg self =
     (let basemap = arg_or ''OpenTopoMap'' basemap_arg in
      case build_url L basemap of
        Inr url \<Rightarrow>
          Returns (add_layer (TileLayer [(''url'', PStr url), (''name'', PStr basemap)]) self)
      | Inl _ \<Rightarrow>
          (case build_url L ''OpenTopoMap'' of
             Inl e \<Rightarrow> Raises e self
           | Inr url \<Rightarrow>
               Returns (add_layer (TileLayer [(''url'', PStr url), (''name'', PStr basemap)]) self)))"

subsection \<open>\<open>add_vector\<close>\<close>

definition default_hover_style :: pyval where
  "default_hover_style = PDict [(''color'', PStr ''yellow''), (''fillOpacity'', PFloat 0.2)]"

text \<open>Lines 71 and 72.\<close>

definition resolve_hover_style :: "pyval option \<Rightarrow> pyval" where
  "resolve_hover_style hover_style_arg =
     (let hover_style = arg_or PNone hover_style_arg in
      if hover_style = PNone then default_hover_style else hover_style)"

text \<open>
  Lines 74 to 79: the locals \<open>gdf\<close> and \<open>data\<close> after the \<open>if\<close>/\<open>elif\<close>, \<open>None\<close> for a
  name that was not assigned. There is no \<open>else\<close>.
\<close>

definition load_vector :: "'g libraries \<Rightarrow> pyval \<Rightarrow> error + ('g option \<times> pyval option)" where
  "load_vector L vector =
     (case vector of
        PStr path \<Rightarrow>
          (case read_file L path of
             Inl e \<Rightarrow> Inl e
           | Inr gdf \<Rightarrow>
               (case to_crs L gdf 4326 of
                  Inl e \<Rightarrow> Inl e
                | Inr gdf' \<Rightarrow> Inr (Some gdf', Some (geo_interface L gdf'))))
      | PDict d \<Rightarrow> Inr (None, Some vector)
      | _ \<Rightarrow> Inr (None, None))"

definition add_vector ::
  "'g libraries \<Rightarrow> pyval \<Rightarrow> bool option \<Rightarrow> pyval option \<Rightarrow> kwargs \<Rightarrow> MapA \<Rightarrow> outcome" where
  "add_vector L vector zoom_to_layer_arg hover_style_arg kwargs self =
     (let zoom_to_layer = arg_or True zoom_to_layer_arg;
          hover_style = resolve_hover_style hover_style_arg
      in
      case load_vector L vector of
        Inl e \<Rightarrow> Raises e self
      | Inr (gdf, data) \<Rightarrow>
          (case data of
             None \<Rightarrow> Raises (UnboundLocalError ''data'') self
           | Some d \<Rightarrow>
               (case call_kw [(''data'', d), (''hover_sytle'', hover_style)] kwargs of
                  Inl e \<Rightarrow> Raises e self
                | Inr kw \<Rightarrow>
                    (case ipyleaflet_GeoJSON L kw of
                       Inl e \<Rightarrow> Raises e self
                     | Inr gjson \<Rightarrow>
                         (let self' = add_layer gjson self in
                          if zoom_to_layer then
                            (case gdf of
                               None \<Rightarrow> Raises (UnboundLocalError ''gdf'') self'
                             | Some g \<Rightarrow>
                                 (case total_bounds L g of
                                    (b0, b1, b2, b3) \<Rightarrow>
                                      Returns (fit_bounds (PList [PList [b1, b0], PList [b3, b2]]) self')))
                          else Returns self')))))"

subsection \<open>The other helpers\<close>

definition add_layer_control :: "MapA \<Rightarrow> outcome" where
  "add_layer_control self = Returns (add_control LayersControl self)"

definition add_raster ::
  "'g libraries \<Rightarrow> pyval \<Rightarrow> pyval option \<Rightarrow> pyval option \<Rightarrow> pyval option \<Rightarrow> kwargs \<Rightarrow> MapA \<Rightarrow> outcome" where
  "add_raster L url name colormap opacity kwargs self =
     (case TileClient L url of
        Inl e \<Rightarrow> Raises e self
      | Inr client \<Rightarrow>
          (case call_kw [(''name'', arg_or PNone name), (''colormap'', arg_or PNone colormap),
                         (''opacity'', arg_or PNone opacity)] kwargs of
             Inl e \<Rightarrow> Raises e self
           | Inr kw \<Rightarrow>
               (case get_leaflet_tile_layer L client kw of
                  Inl e \<Rightarrow> Raises e self
                | Inr tile_layer \<Rightarrow>
                    (let self' = add_layer tile_layer self;
                         self' = self'\<lparr>center := client_center client\<rparr>;
                         self' = self'\<lparr>zoom := default_zoom client\<rparr>
                     in Returns self'))))"

definition add_image ::
  "'g libraries \<Rightarrow> pyval \<Rightarrow> pyval \<Rightarrow> pyval option \<Rightarrow> kwargs \<Rightarrow> MapA \<Rightarrow> outcome" where
  "add_image L url bounds opacity kwargs self =
     (case call_kw [(''url'', url), (''bounds'', bounds), (''opacity'', arg_or (PInt 1) opacity)] kwargs of
        Inl e \<Rightarrow> Raises e self
      | Inr kw \<Rightarrow>
          (case ipyleaflet_ImageOverlay L kw of
             Inl e \<Rightarrow> Raises e self
           | Inr layer \<Rightarrow> Returns (add_layer layer self)))"

definition add_video ::
  "'g libraries \<Rightarrow> pyval \<Rightarrow> pyval \<Rightarrow> pyval option \<Rightarrow> kwargs \<Rightarrow> MapA \<Rightarrow> outcome" where
  "add_video L url bounds opacity kwargs self =
     (case call_kw [(''url'', url), (''bounds'', bounds), (''opacity'', arg_or (PInt 1) opacity)] kwargs of
        Inl e \<Rightarrow> Raises e self
      | Inr kw \<Rightarrow>
          (case ipyleaflet_VideoOverlay L kw of
             Inl e \<Rightarrow> Raises e self
           | Inr layer \<Rightarrow> Returns (add_layer layer self)))"

definition add_wms_layer ::
  "'g libraries \<Rightarrow> pyval \<Rightarrow> pyval \<Rightarrow> pyval option \<Rightarrow> pyval option \<Rightarrow> pyval option \<Rightarrow> pyval option
     \<Rightarrow> kwargs \<Rightarrow> MapA \<Rightarrow> outcome" where
  "add_wms_layer L url layers_arg name format transparent version kwargs self =
     (case call_kw [(''url'', url), (''layers'', layers_arg), (''name'', arg_or PNone name),
                    (''format'', arg_or (PStr ''image/png'') format),
                    (''transparent'', arg_or (PBool True) transparent),
                    (''version'', arg_or (PStr ''1.1.1'') version)] kwargs of
        Inl e \<Rightarrow> Raises e self
      | Inr kw \<Rightarrow>
          (case ipyleaflet_WMSLayer L kw of
             Inl e \<Rightarrow> Raises e self
           | Inr layer \<Rightarrow> Returns (add_layer layer self)))"

text \<open>A call of any of the eight helper methods, and its execution.\<close>

datatype call =
    Add_basemap "string option"
  | Add_google_map "string option"
  | Add_vector pyval "bool option" "pyval option" kwargs
  | Add_layer_control
  | Add_raster pyval "pyval option" "pyval option" "pyval option" kwargs
  | Add_image pyval pyval "pyval option" kwargs
  | Add_video pyval pyval "pyval option" kwargs
  | Add_wms_layer pyval pyval "pyval option" "pyval option" "pyval option" "pyval option" kwargs

fun invoke :: "'g libraries \<Rightarrow> call \<Rightarrow> MapA \<Rightarrow> outcome" where
  "invoke L (Add_basemap b) self = add_basemap L b self"
| "invoke L (Add_google_map t) self = add_google_map t self"
| "invoke L (Add_vector v z h kw) self = add_vector L v z h kw self"
| "invoke L Add_layer_control self = add_layer_control self"
| "invoke L (Add_raster u n c opac kw) self = add_raster L u n c opac kw self"
| "invoke L (Add_image u b opac kw) self = add_image L u b opac kw self"
| "invoke L (Add_video u b opac kw) self = add_video L u b opac kw self"
| "invoke L (Add_wms_layer u ls n f t v kw) self = add_wms_layer L u ls n f t v kw self"

section \<open>The folium map (\<open>foliummap.Map\<close>)\<close>

text \<open>
  \<open>folium.Map.__init__\<close> is a parameter: from its keyword arguments it builds the base
  map with the children it sets up itself (the tile layer), or raises.
  \<open>LayerControl().add_to(self)\<close> appends the control to the map's children.
\<close>

datatype element = LayerControl | Element string kwargs

record MapB =
  options :: kwargs
  children :: "element list"

definition add_to :: "element \<Rightarrow> MapB \<Rightarrow> MapB" where
  "add_to e parent = parent\<lparr>children := children parent @ [e]\<rparr>"

definition MapB_init ::
  "(kwargs \<Rightarrow> error + MapB) \<Rightarrow> pyval option \<Rightarrow> pyval option \<Rightarrow> kwargs \<Rightarrow> error + MapB" where
  "MapB_init folium_Map center_arg zoom_arg kwargs =
     (let center = arg_or (PTuple [PInt 0, PInt 0]) center_arg;
          zoom = arg_or (PInt 3) zoom_arg
      in
      case call_kw [(''location'', center), (''zoom_start'', zoom)] kwargs of
        Inl e \<Rightarrow> Inl e
      | Inr kw \<Rightarrow>
          (case folium_Map kw of
             Inl e \<Rightarrow> Inl e
           | Inr self \<Rightarrow> Inr (add_to LayerControl self)))"

section \<open>A concrete map and concrete libraries\<close>

text \<open>
  The map that \<open>Map()\<close> builds from its defaults (centre 19, 72, zoom 2, height 600px,
  scroll-wheel zoom enabled) before any layer is added, and one instance of the
  third-party functions: a registry that knows OpenTopoMap only, one readable vector
  file, a tile client that reports a fixed centre and default zoom, and widgets that
  reject \<open>None\<close> as a name or an opacity. Its GeoJSON widget keeps the data it is given
  unless a style comes with it, which it writes into the data.
\<close>

definition rejected :: "kwargs \<Rightarrow> bool" where
  "rejected kw = (map_of kw ''name'' = Some PNone \<or> map_of kw ''opacity'' = Some PNone)"

definition example_map :: MapA where
  "example_map = \<lparr>center = PList [PInt 19, PInt 72], zoom = PInt 2, height = PStr ''600px'',
     scroll_wheel_zoom = True, layers = [], controls = [], view_bounds = None\<rparr>"

definition example_libraries :: "(pyval \<times> nat) libraries" where
  "example_libraries =
     \<lparr>build_url = (\<lambda>name. if name = ''OpenTopoMap''
          then Inr ''https://a.tile.opentopomap.org/{z}/{x}/{y}.png''
          else Inl (LibraryError ''AttributeError'')),
      read_file = (\<lambda>path. if path = ''roads.shp''
          then Inr (PDict [(''type'', PStr ''FeatureCollection''), (''features'', PList [])], 3857)
          else Inl (LibraryError ''DriverError'')),
      to_crs = (\<lambda>gdf epsg. Inr (fst gdf, epsg)),
      geo_interface = fst,
      total_bounds = (\<lambda>gdf. (PFloat 72.5, PFloat 18.5, PFloat 73, PFloat 19.25)),
      TileClient = (\<lambda>url. Inr \<lparr>client_center = PTuple [PFloat 40.5, PFloat (-105)],
                                default_zoom = PInt 9\<rparr>),
      get_leaflet_tile_layer = (\<lambda>client kw.
          if rejected kw then Inl (LibraryError ''TraitError'') else Inr (LocalTileLayer kw)),
      ipyleaflet_GeoJSON = (\<lambda>kw.
          if rejected kw then Inl (LibraryError ''TraitError'')
          else if map_of kw ''style'' = None \<and> map_of kw ''style_callback'' = None
          then Inr (GeoJSON kw)
          else Inr (GeoJSON ((''data'', PDict [(''styled'', PList (map snd kw))]) # kw))),
      ipyleaflet_ImageOverlay = (\<lambda>kw.
          if rejected kw then Inl (LibraryError ''TraitError'') else Inr (ImageOverlay kw)),
      ipyleaflet_VideoOverlay = (\<lambda>kw.
          if rejected kw then Inl (LibraryError ''TraitError'') else Inr (VideoOverlay kw)),
      ipyleaflet_WMSLayer = (\<lambda>kw.
          if rejected kw then Inl (LibraryError ''TraitError'') else Inr (WMSLayer kw))\<rparr>"

definition example_folium_Map :: "kwargs \<Rightarrow> error + MapB" where
  "example_folium_Map kw =
     Inr \<lparr>options = kw, children = [Element ''TileLayer'' [(''tiles'', PStr ''OpenStreetMap'')]]\<rparr>"

section \<open>Properties\<close>

subsection \<open>Keyword arguments and letter case\<close>

lemma call_kw_fresh:
  "set (map fst named) \<inter> set (map fst extra) = {} \<Longrightarrow> call_kw named extra = Inr (named @ extra)"
proof -
  assume d: "set (map fst named) \<inter> set (map fst extra) = {}"
  have "filter (\<lambda>k. k \<in> set (map fst named)) (map fst extra) = []"
    using d by (auto simp: filter_empty_conv)
  then show ?thesis by (simp add: call_kw_def)
qed

lemma char_upper_lower:
  "65 \<le> (of_char u :: nat) \<Longrightarrow> (of_char u :: nat) \<le> 90 \<Longrightarrow> char_upper (char_lower u) = u"
  by (simp add: char_upper_def char_lower_def Let_def)

lemma char_upper_capital:
  "65 \<le> (of_char u :: nat) \<Longrightarrow> (of_char u :: nat) \<le> 90 \<Longrightarrow> char_upper u = u"
  by (simp add: char_upper_def Let_def)

lemma any_case_upper:
  "any_case s t \<Longrightarrow> list_all (\<lambda>u. 65 \<le> (of_char u :: nat) \<and> (of_char u :: nat) \<le> 90) t
     \<Longrightarrow> upper s = t"
  unfolding any_case_def upper_def
proof (induction s t rule: list_all2_induct)
  case Nil
  then show ?case by simp
next
  case (Cons c s u t)
  then show ?case by (auto simp: char_upper_lower char_upper_capital)
qed

subsection \<open>\<open>add_vector\<close> on in-memory data\<close>

text \<open>
  C1. Given a dict as \<open>vector\<close>, \<open>add_vector\<close> attaches the GeoJSON layer that the
  widget library builds from it, and the \<open>data\<close> of that layer is the dict, unchanged.
  This holds whatever \<open>zoom_to_layer\<close> and \<open>hover_style\<close> are and whether the call then
  returns or raises. It is stated for a call whose widget is built (the library rejects
  none of the extra keyword arguments), whose extra keyword arguments repeat no keyword
  the method writes itself and carry no \<open>style\<close> or \<open>style_callback\<close>, and for a
  library that leaves the data of a GeoJSON layer as given when no style comes with it.
\<close>

theorem add_vector_dict_data:
  assumes "''data'' \<notin> fst ` set kwargs" and "''hover_sytle'' \<notin> fst ` set kwargs"
    and "''style'' \<notin> fst ` set kwargs" and "''style_callback'' \<notin> fst ` set kwargs"
    and built: "ipyleaflet_GeoJSON L
           ([(''data'', PDict d), (''hover_sytle'', resolve_hover_style hover_style)] @ kwargs) = Inr gjson"
    and keeps: "\<And>kw l. ipyleaflet_GeoJSON L kw = Inr l \<Longrightarrow> ''style'' \<notin> fst ` set kw \<Longrightarrow>
           ''style_callback'' \<notin> fst ` set kw \<Longrightarrow> trait l ''data'' = map_of kw ''data''"
  shows "layers (final (add_vector L (PDict d) zoom_to_layer hover_style kwargs self)) =
           layers self @ [gjson] \<and>
         trait gjson ''data'' = Some (PDict d)"
proof -
  let ?kw = "[(''data'', PDict d), (''hover_sytle'', resolve_hover_style hover_style)] @ kwargs"
  have kw: "call_kw [(''data'', PDict d), (''hover_sytle'', resolve_hover_style hover_style)] kwargs =
          Inr ?kw"
    using assms(1,2) by (intro call_kw_fresh) auto
  have attached: "layers (final (add_vector L (PDict d) zoom_to_layer hover_style kwargs self)) =
           layers self @ [gjson]"
    using kw built by (simp add: add_vector_def load_vector_def add_layer_def Let_def)
  have "''style'' \<notin> fst ` set ?kw" and "''style_callback'' \<notin> fst ` set ?kw"
    using assms(3,4) by auto
  from keeps [OF built this] have "trait gjson ''data'' = Some (PDict d)" by simp
  with attached show ?thesis by simp
qed

theorem add_vector_dict_data_witness:
  "''data'' \<notin> fst ` set [(''name'', PStr ''roads'')] \<and>
   ''hover_sytle'' \<notin> fst ` set [(''name'', PStr ''roads'')] \<and>
   ''style'' \<notin> fst ` set [(''name'', PStr ''roads'')] \<and>
   ''style_callback'' \<notin> fst ` set [(''name'', PStr ''roads'')] \<and>
   ipyleaflet_GeoJSON example_libraries
       ([(''data'', PDict [(''type'', PStr ''FeatureCollection''), (''features'', PList [])]),
         (''hover_sytle'', resolve_hover_style None)] @ [(''name'', PStr ''roads'')]) =
     Inr (GeoJSON [(''data'', PDict [(''type'', PStr ''FeatureCollection''), (''features'', PList [])]),
                   (''hover_sytle'', default_hover_style), (''name'', PStr ''roads'')]) \<and>
   layers (final (add_vector example_libraries
       (PDict [(''type'', PStr ''FeatureCollection''), (''features'', PList [])])
       (Some False) None [(''name'', PStr ''roads'')] example_map)) =
     layers example_map @
       [GeoJSON [(''data'', PDict [(''type'', PStr ''FeatureCollection''), (''features'', PList [])]),
                 (''hover_sytle'', default_hover_style), (''name'', PStr ''roads'')]] \<and>
   trait (GeoJSON [(''data'', PDict [(''type'', PStr ''FeatureCollection''), (''features'', PList [])]),
                   (''hover_sytle'', default_hover_style), (''name'', PStr ''roads'')]) ''data'' =
     Some (PDict [(''type'', PStr ''FeatureCollection''), (''features'', PList [])])"
proof -
  let ?d = "[(''type'', PStr ''FeatureCollection''), (''features'', PList [])]"
  let ?extra = "[(''name'', PStr ''roads'')]"
  let ?gjson = "GeoJSON [(''data'', PDict ?d), (''hover_sytle'', default_hover_style),
                         (''name'', PStr ''roads'')]"
  have x: "''data'' \<notin> fst ` set ?extra" "''hover_sytle'' \<notin> fst ` set ?extra"
      "''style'' \<notin> fst ` set ?extra" "''style_callback'' \<notin> fst ` set ?extra"
    by simp_all
  have b: "ipyleaflet_GeoJSON example_libraries
             ([(''data'', PDict ?d), (''hover_sytle'', resolve_hover_style None)] @ ?extra) = Inr ?gjson"
    by (simp add: example_libraries_def rejected_def resolve_hover_style_def arg_or_def)
  have k: "\<And>kw l. ipyleaflet_GeoJSON example_libraries kw = Inr l \<Longrightarrow> ''style'' \<notin> fst ` set kw \<Longrightarrow>
           ''style_callback'' \<notin> fst ` set kw \<Longrightarrow> trait l ''data'' = map_of kw ''data''"
    by (auto simp: example_libraries_def trait_def map_of_eq_None_iff split: if_splits)
  show ?thesis
    using x b add_vector_dict_data [OF x b k, where zoom_to_layer = "Some False" and self = example_map]
    by simp
qed

text \<open>
  C2. Given a dict as \<open>vector\<close> with \<open>zoom_to_layer\<close> true (passed, or left to its
  default), the call raises the unbound-name error for \<open>gdf\<close>, which only the
  file-loading branch assigns. The error comes after the layer was built and attached,
  and the map it leaves behind still holds that layer.
\<close>

theorem add_vector_dict_unbound:
  assumes "zoom_to_layer = None \<or> zoom_to_layer = Some True"
    and "''data'' \<notin> fst ` set kwargs" and "''hover_sytle'' \<notin> fst ` set kwargs"
    and built: "ipyleaflet_GeoJSON L
           ([(''data'', PDict d), (''hover_sytle'', resolve_hover_style hover_style)] @ kwargs) = Inr gjson"
  shows "add_vector L (PDict d) zoom_to_layer hover_style kwargs self =
           Raises (UnboundLocalError ''gdf'') (self\<lparr>layers := layers self @ [gjson]\<rparr>)"
proof -
  have kw: "call_kw [(''data'', PDict d), (''hover_sytle'', resolve_hover_style hover_style)] kwargs =
          Inr ([(''data'', PDict d), (''hover_sytle'', resolve_hover_style hover_style)] @ kwargs)"
    using assms(2,3) by (intro call_kw_fresh) auto
  have z: "arg_or True zoom_to_layer" using assms(1) by (auto simp: arg_or_def)
  show ?thesis
    using kw z built by (simp add: add_vector_def load_vector_def add_layer_def Let_def)
qed

theorem add_vector_dict_unbound_witness:
  "((None :: bool option) = None \<or> (None :: bool option) = Some True) \<and>
   ''data'' \<notin> fst ` set ([] :: kwargs) \<and> ''hover_sytle'' \<notin> fst ` set ([] :: kwargs) \<and>
   ipyleaflet_GeoJSON example_libraries
       ([(''data'', PDict [(''type'', PStr ''FeatureCollection'')]),
         (''hover_sytle'', resolve_hover_style None)] @ []) =
     Inr (GeoJSON [(''data'', PDict [(''type'', PStr ''FeatureCollection'')]),
                   (''hover_sytle'', default_hover_style)]) \<and>
   add_vector example_libraries (PDict [(''type'', PStr ''FeatureCollection'')])
       None None [] example_map =
     Raises (UnboundLocalError ''gdf'') (example_map\<lparr>layers := layers example_map @
       [GeoJSON [(''data'', PDict [(''type'', PStr ''FeatureCollection'')]),
                 (''hover_sytle'', default_hover_style)]]\<rparr>)"
proof -
  let ?d = "[(''type'', PStr ''FeatureCollection'')]"
  have z: "(None :: bool option) = None \<or> (None :: bool option) = Some True" by simp
  have x: "''data'' \<notin> fst ` set ([] :: kwargs)" "''hover_sytle'' \<notin> fst ` set ([] :: kwargs)"
    by simp_all
  have b: "ipyleaflet_GeoJSON example_libraries
             ([(''data'', PDict ?d), (''hover_sytle'', resolve_hover_style None)] @ []) =
           Inr (GeoJSON [(''data'', PDict ?d), (''hover_sytle'', default_hover_style)])"
    by (simp add: example_libraries_def rejected_def resolve_hover_style_def arg_or_def)
  show ?thesis
    using b add_vector_dict_unbound [OF z x b, where self = example_map] by simp
qed

subsection \<open>\<open>add_vector\<close> on a file or URL\<close>

text \<open>
  C7. Given a path or URL that geopandas reads and reprojects, \<open>add_vector\<close> attaches the
  GeoJSON layer built from the geometry after \<open>to_crs\<close> to EPSG 4326 as its \<open>data\<close>.
  Unless \<open>zoom_to_layer\<close> is passed as false, it then calls \<open>fit_bounds\<close> with the
  corners (miny, minx) and (maxy, maxx) of that reprojected geometry's total bounds,
  nothing added to them; otherwise the view is left alone.
\<close>

theorem add_vector_path:
  assumes "read_file L path = Inr gdf"
    and "to_crs L gdf 4326 = Inr wgs"
    and "total_bounds L wgs = (minx, miny, maxx, maxy)"
    and "''data'' \<notin> fst ` set kwargs" and "''hover_sytle'' \<notin> fst ` set kwargs"
    and built: "ipyleaflet_GeoJSON L
           ([(''data'', geo_interface L wgs), (''hover_sytle'', resolve_hover_style hover_style)] @ kwargs) =
           Inr gjson"
  shows "\<exists>kw. map_of kw ''data'' = Some (geo_interface L wgs) \<and>
           ipyleaflet_GeoJSON L kw = Inr gjson \<and>
           add_vector L (PStr path) zoom_to_layer hover_style kwargs self =
             Returns (if zoom_to_layer = Some False
                      then self\<lparr>layers := layers self @ [gjson]\<rparr>
                      else self\<lparr>layers := layers self @ [gjson],
                                view_bounds := Some (PList [PList [miny, minx], PList [maxy, maxx]])\<rparr>)"
proof -
  let ?kw = "[(''data'', geo_interface L wgs), (''hover_sytle'', resolve_hover_style hover_style)] @ kwargs"
  have kw: "call_kw [(''data'', geo_interface L wgs), (''hover_sytle'', resolve_hover_style hover_style)]
              kwargs = Inr ?kw"
    using assms(4,5) by (intro call_kw_fresh) auto
  have z: "arg_or True zoom_to_layer \<longleftrightarrow> zoom_to_layer \<noteq> Some False"
    by (cases zoom_to_layer) (auto simp: arg_or_def)
  have "add_vector L (PStr path) zoom_to_layer hover_style kwargs self =
             Returns (if zoom_to_layer = Some False
                      then self\<lparr>layers := layers self @ [gjson]\<rparr>
                      else self\<lparr>layers := layers self @ [gjson],
                                view_bounds := Some (PList [PList [miny, minx], PList [maxy, maxx]])\<rparr>)"
    using assms(1-3) kw z built
    by (simp add: add_vector_def load_vector_def add_layer_def fit_bounds_def Let_def)
  moreover have "map_of ?kw ''data'' = Some (geo_interface L wgs)" by simp
  ultimately show ?thesis using built by blast
qed

theorem add_vector_path_witness:
  "read_file example_libraries ''roads.shp'' =
     Inr (PDict [(''type'', PStr ''FeatureCollection''), (''features'', PList [])], 3857) \<and>
   to_crs example_libraries
       (PDict [(''type'', PStr ''FeatureCollection''), (''features'', PList [])], 3857) 4326 =
     Inr (PDict [(''type'', PStr ''FeatureCollection''), (''features'', PList [])], 4326) \<and>
   total_bounds example_libraries
       (PDict [(''type'', PStr ''FeatureCollection''), (''features'', PList [])], 4326) =
     (PFloat 72.5, PFloat 18.5, PFloat 73, PFloat 19.25) \<and>
   ''data'' \<notin> fst ` set ([] :: kwargs) \<and> ''hover_sytle'' \<notin> fst ` set ([] :: kwargs) \<and>
   (\<exists>kw. map_of kw ''data'' =
            Some (PDict [(''type'', PStr ''FeatureCollection''), (''features'', PList [])]) \<and>
      ipyleaflet_GeoJSON example_libraries kw =
        Inr (GeoJSON [(''data'', PDict [(''type'', PStr ''FeatureCollection''), (''features'', PList [])]),
                      (''hover_sytle'', default_hover_style)]) \<and>
      add_vector example_libraries (PStr ''roads.shp'') None None [] example_map =
        Returns (example_map\<lparr>layers := layers example_map @
            [GeoJSON [(''data'', PDict [(''type'', PStr ''FeatureCollection''), (''features'', PList [])]),
                      (''hover_sytle'', default_hover_style)]],
          view_bounds := Some (PList [PList [PFloat 18.5, PFloat 72.5], PList [PFloat 19.25, PFloat 73]])\<rparr>))"
proof -
  let ?fc = "PDict [(''type'', PStr ''FeatureCollection''), (''features'', PList [])]"
  have r: "read_file example_libraries ''roads.shp'' = Inr (?fc, 3857)"
    by (simp add: example_libraries_def)
  have t: "to_crs example_libraries (?fc, 3857) 4326 = Inr (?fc, 4326)"
    by (simp add: example_libraries_def)
  have b: "total_bounds example_libraries (?fc, 4326) =
             (PFloat 72.5, PFloat 18.5, PFloat 73, PFloat 19.25)"
    by (simp add: example_libraries_def)
  have g: "geo_interface example_libraries (?fc, 4326) = ?fc"
    by (simp add: example_libraries_def)
  have k: "''data'' \<notin> fst ` set ([] :: kwargs)" "''hover_sytle'' \<notin> fst ` set ([] :: kwargs)"
    by simp_all
  have c: "ipyleaflet_GeoJSON example_libraries
             ([(''data'', geo_interface example_libraries (?fc, 4326)),
               (''hover_sytle'', resolve_hover_style None)] @ []) =
           Inr (GeoJSON [(''data'', ?fc), (''hover_sytle'', default_hover_style)])"
    by (simp add: example_libraries_def rejected_def resolve_hover_style_def arg_or_def)
  show ?thesis
    using r t b add_vector_path [OF r t b k c, where zoom_to_layer = None and self = example_map]
    by (simp add: g)
qed

subsection \<open>The hover style of \<open>add_vector\<close>\<close>

text \<open>
  C8. The claim is that a call of \<open>add_vector\<close> without \<open>hover_style\<close> makes a layer that
  carries the yellow, 0.2 fill-opacity style as its hover style. The code builds that
  style but hands it to the GeoJSON constructor under the keyword \<open>hover_sytle\<close>
  (line 81): the constructor receives \<open>data\<close> and \<open>hover_sytle\<close>, and no keyword
  \<open>hover_style\<close> at all. The call does what the constructor does with those two
  keywords: it raises its error, or returns with its layer attached.
\<close>

theorem add_vector_hover_sytle:
  "add_vector L (PDict d) (Some False) None [] self =
     (case ipyleaflet_GeoJSON L
        [(''data'', PDict d),
         (''hover_sytle'', PDict [(''color'', PStr ''yellow''), (''fillOpacity'', PFloat 0.2)])] of
        Inl e \<Rightarrow> Raises e self
      | Inr gjson \<Rightarrow> Returns (self\<lparr>layers := layers self @ [gjson]\<rparr>))
   \<and> map_of [(''data'', PDict d),
              (''hover_sytle'', PDict [(''color'', PStr ''yellow''), (''fillOpacity'', PFloat 0.2)])]
        ''hover_style'' = None"
  by (simp add: add_vector_def load_vector_def add_layer_def call_kw_def arg_or_def
        resolve_hover_style_def default_hover_style_def split: sum.splits)

subsection \<open>\<open>add_google_map\<close>\<close>

text \<open>
  C4. For each of the tokens ROADMAP, SATELLITE, HYBRID and TERRAIN, spelled with its
  letters in any case, \<open>add_google_map\<close> attaches a tile layer whose URL is the Google
  template with the code m, s, h or t of that token in the place of the type.
\<close>

theorem add_google_map_url:
  assumes tok: "(t, c) \<in> {(''ROADMAP'', ''m''), (''SATELLITE'', ''s''), (''HYBRID'', ''h''), (''TERRAIN'', ''t'')}"
    and spelled: "any_case s t"
  shows "add_google_map (Some s) self =
           Returns (self\<lparr>layers := layers self @
             [TileLayer [(''url'', PStr (''https://mt1.google.com/vt/lyrs='' @ c @ ''&x={x}&y={y}&z={z}'')),
                         (''name'', PStr ''Google Map'')]]\<rparr>)"
proof -
  have caps: "list_all (\<lambda>u. 65 \<le> (of_char u :: nat) \<and> (of_char u :: nat) \<le> 90) t"
    using tok by auto
  have up: "upper s = t" using any_case_upper [OF spelled caps] .
  have look: "map_of map_types t = Some c" and low: "lower c = c"
    using tok by (auto simp: map_types_def lower_def char_lower_def)
  show ?thesis
    by (simp add: add_google_map_def arg_or_def up look low add_layer_def)
qed

theorem add_google_map_url_witness:
  "(''SATELLITE'', ''s'') \<in> {(''ROADMAP'', ''m''), (''SATELLITE'', ''s''), (''HYBRID'', ''h''), (''TERRAIN'', ''t'')} \<and>
   any_case ''Satellite'' ''SATELLITE'' \<and>
   add_google_map (Some ''Satellite'') example_map =
     Returns (example_map\<lparr>layers := layers example_map @
       [TileLayer [(''url'', PStr ''https://mt1.google.com/vt/lyrs=s&x={x}&y={y}&z={z}''),
                   (''name'', PStr ''Google Map'')]]\<rparr>)"
proof -
  have sp: "any_case ''Satellite'' ''SATELLITE''" by code_simp
  have tok: "(''SATELLITE'', ''s'') \<in> {(''ROADMAP'', ''m''), (''SATELLITE'', ''s''), (''HYBRID'', ''h''), (''TERRAIN'', ''t'')}"
    by simp
  show ?thesis using sp add_google_map_url [OF tok sp, of example_map] by simp
qed

text \<open>
  C5. For a token whose upper-cased form is none of the four keys, the registry lookup
  raises KeyError (on the upper-cased token) and the map is left as it was: no layer is
  attached.
\<close>

theorem add_google_map_unknown:
  assumes "upper s \<notin> {''ROADMAP'', ''SATELLITE'', ''HYBRID'', ''TERRAIN''}"
  shows "add_google_map (Some s) self = Raises (KeyError (upper s)) self"
  using assms by (simp add: add_google_map_def arg_or_def map_types_def)

theorem add_google_map_unknown_witness:
  "upper ''bogus'' \<notin> {''ROADMAP'', ''SATELLITE'', ''HYBRID'', ''TERRAIN''} \<and>
   add_google_map (Some ''bogus'') example_map = Raises (KeyError ''BOGUS'') example_map"
proof -
  have u: "upper ''bogus'' = ''BOGUS''" by code_simp
  have n: "upper ''bogus'' \<notin> {''ROADMAP'', ''SATELLITE'', ''HYBRID'', ''TERRAIN''}"
    unfolding u by simp
  show ?thesis using n add_google_map_unknown [OF n, of example_map] by (simp add: u)
qed

subsection \<open>\<open>add_basemap\<close>\<close>

text \<open>
  C6. When resolving the requested basemap name raises (the name is not in the
  registry, or anything else goes wrong on the way to its URL), \<open>add_basemap\<close> does not
  raise: it returns, having attached a tile layer built from the URL of OpenTopoMap,
  the default basemap of the registry, under the requested name.
\<close>

theorem add_basemap_fallback:
  assumes "build_url L name = Inl e"
    and "build_url L ''OpenTopoMap'' = Inr u"
  shows "add_basemap L (Some name) self =
           Returns (self\<lparr>layers := layers self @ [TileLayer [(''url'', PStr u), (''name'', PStr name)]]\<rparr>)"
  using assms by (simp add: add_basemap_def arg_or_def add_layer_def)

theorem add_basemap_fallback_witness:
  "build_url example_libraries ''NonexistentName'' = Inl (LibraryError ''AttributeError'') \<and>
   build_url example_libraries ''OpenTopoMap'' = Inr ''https://a.tile.opentopomap.org/{z}/{x}/{y}.png'' \<and>
   add_basemap example_libraries (Some ''NonexistentName'') example_map =
     Returns (example_map\<lparr>layers := layers example_map @ [TileLayer
        [(''url'', PStr ''https://a.tile.opentopomap.org/{z}/{x}/{y}.png''),
         (''name'', PStr ''NonexistentName'')]]\<rparr>)"
proof -
  have a: "build_url example_libraries ''NonexistentName'' = Inl (LibraryError ''AttributeError'')"
    by (simp add: example_libraries_def)
  have b: "build_url example_libraries ''OpenTopoMap'' = Inr ''https://a.tile.opentopomap.org/{z}/{x}/{y}.png''"
    by (simp add: example_libraries_def)
  show ?thesis using a b add_basemap_fallback [OF a b, of example_map] by simp
qed

subsection \<open>\<open>add_image\<close> and \<open>add_video\<close>\<close>



subsection \<open>The constructor of the folium map\<close>

text \<open>
  C10. Whatever centre, zoom and extra configuration it is given, a constructed \<open>MapB\<close>
  holds exactly one layer control among its children: the base constructor of folium
  attaches none, and the subclass adds one.
\<close>

theorem MapB_init_one_layer_control:
  assumes "MapB_init folium_Map center_arg zoom_arg kwargs = Inr self"
    and "\<And>kw base. folium_Map kw = Inr base \<Longrightarrow> LayerControl \<notin> set (children base)"
  shows "count_list (children self) LayerControl = 1"
proof -
  obtain kw base where "folium_Map kw = Inr base" and "self = add_to LayerControl base"
    using assms(1) by (auto simp: MapB_init_def Let_def split: sum.splits)
  moreover from this assms(2) have "count_list (children base) LayerControl = 0"
    by (simp add: count_list_0_iff)
  ultimately show ?thesis by (simp add: add_to_def)
qed

theorem MapB_init_one_layer_control_witness:
  "MapB_init example_folium_Map (Some (PTuple [PInt 19, PInt 72])) None [(''tiles'', PStr ''OpenStreetMap'')] =
     Inr \<lparr>options = [(''location'', PTuple [PInt 19, PInt 72]), (''zoom_start'', PInt 3),
                     (''tiles'', PStr ''OpenStreetMap'')],
          children = [Element ''TileLayer'' [(''tiles'', PStr ''OpenStreetMap'')], LayerControl]\<rparr> \<and>
   count_list [Element ''TileLayer'' [(''tiles'', PStr ''OpenStreetMap'')], LayerControl] LayerControl = 1"
proof -
  let ?self = "\<lparr>options = [(''location'', PTuple [PInt 19, PInt 72]), (''zoom_start'', PInt 3),
                     (''tiles'', PStr ''OpenStreetMap'')],
          children = [Element ''TileLayer'' [(''tiles'', PStr ''OpenStreetMap'')], LayerControl]\<rparr>"
  have i: "MapB_init example_folium_Map (Some (PTuple [PInt 19, PInt 72])) None
             [(''tiles'', PStr ''OpenStreetMap'')] = Inr ?self"
    by (simp add: MapB_init_def example_folium_Map_def call_kw_def arg_or_def add_to_def)
  have n: "\<And>kw base. example_folium_Map kw = Inr base \<Longrightarrow> LayerControl \<notin> set (children base)"
    by (auto simp: example_folium_Map_def)
  show ?thesis using i n MapB_init_one_layer_control [OF i n] by simp
qed

subsection \<open>What a helper call changes\<close>

text \<open>
  C3, as stated, says that no helper method modifies the centre, the zoom or the view
  bounds of the map. \<open>add_raster\<close> does: it sets centre and zoom to those its tile
  client reports.
\<close>

theorem add_raster_moves_view:
  "center (final (add_raster example_libraries (PStr ''dem.tif'') (Some (PStr ''dem'')) None
             (Some (PInt 1)) [] example_map))
     \<noteq> center example_map \<and>
   zoom (final (add_raster example_libraries (PStr ''dem.tif'') (Some (PStr ''dem'')) None
             (Some (PInt 1)) [] example_map))
     \<noteq> zoom example_map"
  by (simp add: add_raster_def example_libraries_def example_map_def call_kw_def add_layer_def
        arg_or_def rejected_def)

text \<open>
  C3, amended. A call of a helper method that returns has appended exactly one object:
  \<open>add_layer_control\<close> one control to the controls, every other method one layer to the
  layers. Height and scroll-wheel zoom are never touched. \<open>add_raster\<close> sets centre and
  zoom to the centre and default zoom of its tile client and leaves the view bounds;
  \<open>add_vector\<close> with \<open>zoom_to_layer\<close> fits the view bounds to the corners (miny, minx),
  (maxy, maxx) of the total bounds of the file it loaded and reprojected; every other
  call, \<open>add_vector\<close> without \<open>zoom_to_layer\<close> among them, leaves centre, zoom and view
  bounds as they were.
\<close>

theorem helper_effect:
  assumes "invoke L c self = Returns s"
  shows "(if c = Add_layer_control
          then layers s = layers self \<and> controls s = controls self @ [LayersControl]
          else (\<exists>l. layers s = layers self @ [l]) \<and> controls s = controls self)
       \<and> height s = height self \<and> scroll_wheel_zoom s = scroll_wheel_zoom self
       \<and> (case c of
            Add_raster url name colormap opacity kwargs \<Rightarrow>
              (\<exists>client. TileClient L url = Inr client \<and>
                  center s = client_center client \<and> zoom s = default_zoom client) \<and>
              view_bounds s = view_bounds self
          | Add_vector vector zoom_to_layer hover_style kwargs \<Rightarrow>
              (if zoom_to_layer = Some False
               then center s = center self \<and> zoom s = zoom self \<and> view_bounds s = view_bounds self
               else \<exists>path gdf wgs minx miny maxx maxy.
                      vector = PStr path \<and> read_file L path = Inr gdf \<and>
                      to_crs L gdf 4326 = Inr wgs \<and>
                      total_bounds L wgs = (minx, miny, maxx, maxy) \<and>
                      view_bounds s = Some (PList [PList [miny, minx], PList [maxy, maxx]]))
          | _ \<Rightarrow> center s = center self \<and> zoom s = zoom self \<and> view_bounds s = view_bounds self)"
proof (cases c)
  case (Add_basemap b)
  then show ?thesis using assms
    by (auto simp: add_basemap_def add_layer_def Let_def split: sum.splits)
next
  case (Add_google_map t)
  then show ?thesis using assms
    by (auto simp: add_google_map_def add_layer_def Let_def split: option.splits)
next
  case (Add_vector v z h kw)
  have zf: "arg_or True z \<longleftrightarrow> z \<noteq> Some False"
    by (cases z) (auto simp: arg_or_def)
  show ?thesis
  proof (cases "z = Some False")
    case True
    with Add_vector assms show ?thesis
      by (auto simp: add_vector_def add_layer_def arg_or_def Let_def
            split: sum.splits option.splits prod.splits)
  next
    case False
    with Add_vector assms zf show ?thesis
      by (auto simp: add_vector_def load_vector_def add_layer_def fit_bounds_def Let_def
            split: sum.splits option.splits prod.splits pyval.splits)
  qed
next
  case Add_layer_control
  then show ?thesis using assms by (auto simp: add_layer_control_def add_control_def)
next
  case (Add_raster u n cm opac kw)
  then show ?thesis using assms
    by (auto simp: add_raster_def add_layer_def Let_def split: sum.splits)
next
  case (Add_image u b opac kw)
  then show ?thesis using assms
    by (auto simp: add_image_def add_layer_def split: sum.splits)
next
  case (Add_video u b opac kw)
  then show ?thesis using assms
    by (auto simp: add_video_def add_layer_def split: sum.splits)
next
  case (Add_wms_layer u ls n f t v kw)
  then show ?thesis using assms
    by (auto simp: add_wms_layer_def add_layer_def split: sum.splits)
qed

theorem helper_effect_witness:
  "invoke example_libraries
       (Add_raster (PStr ''dem.tif'') (Some (PStr ''dem'')) None (Some (PInt 1)) [])
       example_map =
     Returns (example_map\<lparr>layers :=
         [LocalTileLayer [(''name'', PStr ''dem''), (''colormap'', PNone), (''opacity'', PInt 1)]],
       center := PTuple [PFloat 40.5, PFloat (-105)], zoom := PInt 9\<rparr>) \<and>
   TileClient example_libraries (PStr ''dem.tif'') =
     Inr \<lparr>client_center = PTuple [PFloat 40.5, PFloat (-105)], default_zoom = PInt 9\<rparr> \<and>
   view_bounds (example_map\<lparr>layers :=
         [LocalTileLayer [(''name'', PStr ''dem''), (''colormap'', PNone), (''opacity'', PInt 1)]],
       center := PTuple [PFloat 40.5, PFloat (-105)], zoom := PInt 9\<rparr>) = view_bounds example_map"
proof -
  let ?c = "Add_raster (PStr ''dem.tif'') (Some (PStr ''dem'')) None (Some (PInt 1)) []"
  let ?s = "example_map\<lparr>layers :=
         [LocalTileLayer [(''name'', PStr ''dem''), (''colormap'', PNone), (''opacity'', PInt 1)]],
       center := PTuple [PFloat 40.5, PFloat (-105)], zoom := PInt 9\<rparr>"
  have i: "invoke example_libraries ?c example_map = Returns ?s"
    by (simp add: add_raster_def call_kw_def arg_or_def add_layer_def example_map_def
          example_libraries_def rejected_def)
  have t: "TileClient example_libraries (PStr ''dem.tif'') =
     Inr \<lparr>client_center = PTuple [PFloat 40.5, PFloat (-105)], default_zoom = PInt 9\<rparr>"
    by (simp add: example_libraries_def)
  show ?thesis using i t helper_effect [OF i] by simp
qed

end
